theory Spec2Isabelle
  imports Complex_Main "HOL-Library.Word" "HOL-Library.Monad_Syntax"
begin

section \<open>The mpg123 audio decoder wrapper (audio/decode/ad_mpg123.c)\<close>

text \<open>
  A shallow embedding of the decoder wrapper: the bitrate estimator
  (\<open>compute_bitrate\<close>, \<open>update_info\<close>), the format negotiation (\<open>set_format\<close>,
  \<open>mpg123_format_to_af\<close>) and the per-packet operation \<open>decode_packet\<close>.

  Conventions of the model.
  \<^item> C \<open>int\<close> is 32 bits and \<open>long\<close> is 64 bits (LP64). Signed arithmetic is done on
    \<open>int\<close>; a result outside the range of its C type is undefined behaviour in C and is
    the value \<open>None\<close> here. \<open>unsigned int\<close> is \<open>32 word\<close> and \<open>short\<close> is \<open>16 word\<close>
    read with \<open>sint\<close>, so that their wrap-around is the one of the machine.
  \<^item> The calls into libmpg123 and into the host (demuxer) are answered by an environment
    record that holds, for one invocation, what each call returns.
  \<^item> C \<open>float\<close> is a type parameter \<open>'f\<close>; the float operations the code performs are the
    fields of a record \<open>'f float_ops\<close>. Theorems hold for every such record, hence for
    IEEE single precision as well as for exact arithmetic.
\<close>

subsection \<open>C integer ranges and division\<close>

definition INT_MAX :: int where
  "INT_MAX = 2147483647"

definition INT_MIN :: int where
  "INT_MIN = - 2147483648"

definition LONG_MAX :: int where
  "LONG_MAX = 9223372036854775807"

definition LONG_MIN :: int where
  "LONG_MIN = - 9223372036854775808"

definition in_int :: "int \<Rightarrow> bool" where
  "in_int x \<longleftrightarrow> INT_MIN \<le> x \<and> x \<le> INT_MAX"

definition in_long :: "int \<Rightarrow> bool" where
  "in_long x \<longleftrightarrow> LONG_MIN \<le> x \<and> x \<le> LONG_MAX"

text \<open>The result of a signed operation, or \<open>None\<close> when it does not fit its type.\<close>

definition as_int :: "int \<Rightarrow> int option" where
  "as_int x = (if in_int x then Some x else None)"

definition as_long :: "int \<Rightarrow> int option" where
  "as_long x = (if in_long x then Some x else None)"

text \<open>C's \<open>/\<close> on signed integers truncates towards zero (the divisor is not zero).\<close>

definition c_div :: "int \<Rightarrow> int \<Rightarrow> int" where
  "c_div a b = (if (a < 0) = (b < 0) then \<bar>a\<bar> div \<bar>b\<bar> else - (\<bar>a\<bar> div \<bar>b\<bar>))"

text \<open>The conversion of a floating value to an integer type discards the fraction.\<close>

definition c_trunc :: "rat \<Rightarrow> int" where
  "c_trunc x = (if x < 0 then \<lceil>x\<rceil> else \<lfloor>x\<rfloor>)"

definition UINT_MAX :: "32 word" where
  "UINT_MAX = - 1"

subsection \<open>Constants of libmpg123 (mpg123.h)\<close>

definition MPG123_DONE :: int where "MPG123_DONE = - 12"
definition MPG123_NEW_FORMAT :: int where "MPG123_NEW_FORMAT = - 11"
definition MPG123_NEED_MORE :: int where "MPG123_NEED_MORE = - 10"
definition MPG123_ERR :: int where "MPG123_ERR = - 1"
definition MPG123_OK :: int where "MPG123_OK = 0"

definition MPG123_ENC_SIGNED_8 :: int where "MPG123_ENC_SIGNED_8 = 130"
definition MPG123_ENC_SIGNED_16 :: int where "MPG123_ENC_SIGNED_16 = 208"
definition MPG123_ENC_SIGNED_32 :: int where "MPG123_ENC_SIGNED_32 = 4480"
definition MPG123_ENC_FLOAT_32 :: int where "MPG123_ENC_FLOAT_32 = 512"

definition MPG123_CBR :: int where "MPG123_CBR = 0"
definition MPG123_VBR :: int where "MPG123_VBR = 1"
definition MPG123_ABR :: int where "MPG123_ABR = 2"

text \<open>
  The fields of \<open>struct mpg123_frameinfo\<close> that the wrapper reads: \<open>version\<close> (an enum,
  0 for MPEG 1.0, 1 for 2.0, 2 for 2.5), \<open>layer\<close> (int), \<open>rate\<close> (long), \<open>framesize\<close>
  (int), \<open>bitrate\<close> (int, in kilobits) and \<open>vbr\<close> (an enum).
\<close>

record mpg123_frameinfo =
  fi_version :: int
  fi_layer :: int
  fi_rate :: int
  fi_framesize :: int
  fi_bitrate :: int
  fi_vbr :: int

subsection \<open>Constants and helpers of the host\<close>

text \<open>
  Modelled from the spec: the return codes \<open>AD_ERR\<close> and \<open>AD_EOF\<close> are declared in
  ad.h, which is not among the sources. The spec names three outcomes of decoding one
  packet (produced output, end of stream, error); the operation returns the literal 0 for
  the first, and the two macros are the negative codes of the host.
\<close>

definition AD_ERR :: int where "AD_ERR = - 1"
definition AD_EOF :: int where "AD_EOF = - 2"

text \<open>
  Modelled from the spec: the host's audio formats (audio/format.h is not among the
  sources). The spec lists the four formats that the fixed table maps to; the code 0,
  which \<open>mpg123_format_to_af\<close> returns for every other encoding, is \<open>None\<close>.
\<close>

datatype af_format = AF_FORMAT_S8 | AF_FORMAT_S16 | AF_FORMAT_S32 | AF_FORMAT_FLOAT

text \<open>
  Modelled from the spec: \<open>af_fmt2bps\<close> (audio/format.c is not among the sources) gives
  the bytes per sample of an encoding.
\<close>

fun af_fmt2bps :: "af_format \<Rightarrow> int" where
  "af_fmt2bps AF_FORMAT_S8 = 1"
| "af_fmt2bps AF_FORMAT_S16 = 2"
| "af_fmt2bps AF_FORMAT_S32 = 4"
| "af_fmt2bps AF_FORMAT_FLOAT = 4"

text \<open>
  The output descriptor \<open>struct mp_audio\<close>: the fields the wrapper writes. A pointer is
  an address, 0 for NULL.
\<close>

record mp_audio =
  nch :: int
  rate :: int
  format :: "af_format option"
  planes0 :: nat
  samples :: int

text \<open>
  Modelled from the spec: \<open>mp_audio_set_null_data\<close>, \<open>mp_audio_set_num_channels\<close> and
  \<open>mp_audio_set_format\<close> (audio/audio.c is not among the sources). The first leaves the
  descriptor with no data and zero samples; the others store the channel count and the
  format.
\<close>

definition mp_audio_set_null_data :: "mp_audio \<Rightarrow> mp_audio" where
  "mp_audio_set_null_data mpa = mpa\<lparr>planes0 := 0, samples := 0\<rparr>"

definition mp_audio_set_num_channels :: "mp_audio \<Rightarrow> int \<Rightarrow> mp_audio" where
  "mp_audio_set_num_channels mpa n = mpa\<lparr>nch := n\<rparr>"

definition mp_audio_set_format :: "mp_audio \<Rightarrow> af_format \<Rightarrow> mp_audio" where
  "mp_audio_set_format mpa af = mpa\<lparr>format := Some af\<rparr>"

subsection \<open>Floating point\<close>

text \<open>
  The operations on \<open>float\<close> that \<open>update_info\<close> performs: the constant \<open>0.\<close>, the
  conversions from \<open>unsigned int\<close> and from \<open>int\<close>, product, sum and quotient, and
  \<open>(int) (x + 0.5)\<close>, which is undefined (\<open>None\<close>) when the value does not fit \<open>int\<close>.
\<close>

record 'f float_ops =
  f_zero :: 'f
  f_of_uint :: "32 word \<Rightarrow> 'f"
  f_of_int :: "int \<Rightarrow> 'f"
  f_mul :: "'f \<Rightarrow> 'f \<Rightarrow> 'f"
  f_add :: "'f \<Rightarrow> 'f \<Rightarrow> 'f"
  f_div :: "'f \<Rightarrow> 'f \<Rightarrow> 'f"
  f_half_up_int :: "'f \<Rightarrow> int option"

text \<open>
  Arithmetic without rounding error, on the rationals: the instance used to evaluate the
  model at concrete inputs, and to show that the hypotheses of the theorems can be met.
  The counterexamples below go through no float arithmetic other than
  (0 * 0 + 128000) / 1, which single precision computes exactly as well. A quotient by
  zero is 0 here; IEEE arithmetic gives an infinity or a NaN, whose conversion to \<open>int\<close>
  is undefined.
\<close>

definition exact_ops :: "rat float_ops" where
  "exact_ops = \<lparr> f_zero = 0,
                  f_of_uint = (\<lambda>w. of_nat (unat w)),
                  f_of_int = of_int,
                  f_mul = (\<lambda>x y. x * y),
                  f_add = (\<lambda>x y. x + y),
                  f_div = (\<lambda>x y. x / y),
                  f_half_up_int = (\<lambda>x. as_int (c_trunc (x + 1 / 2))) \<rparr>"

subsection \<open>The decoder session\<close>

text \<open>\<open>struct ad_mpg123_context\<close>, without the handle of the library.\<close>

record 'f ad_mpg123_context =
  sample_size :: int
  mean_rate :: 'f
  mean_count :: "32 word"
  delay :: "16 word"
  vbr :: "8 word"

text \<open>
  \<open>struct dec_audio\<close>: the fields the wrapper uses. \<open>pts\<close> is a \<open>double\<close> that is only
  stored, a type parameter \<open>'d\<close>.
\<close>

record ('f, 'd) dec_audio =
  decoded :: mp_audio
  bitrate :: int
  pts :: 'd
  pts_offset :: int
  priv :: "'f ad_mpg123_context"

text \<open>
  \<open>init\<close> allocates the context with \<open>talloc_zero\<close>: every field is zero.
\<close>

definition init_context :: "'f float_ops \<Rightarrow> 'f ad_mpg123_context" where
  "init_context F = \<lparr> sample_size = 0, mean_rate = f_zero F, mean_count = 0,
                       delay = 0, vbr = 0 \<rparr>"

subsection \<open>mpg123_format_to_af\<close>

definition mpg123_format_to_af :: "int \<Rightarrow> af_format option" where
  "mpg123_format_to_af mpg123_encoding =
     (if mpg123_encoding = MPG123_ENC_SIGNED_8 then Some AF_FORMAT_S8
      else if mpg123_encoding = MPG123_ENC_SIGNED_16 then Some AF_FORMAT_S16
      else if mpg123_encoding = MPG123_ENC_SIGNED_32 then Some AF_FORMAT_S32
      else if mpg123_encoding = MPG123_ENC_FLOAT_32 then Some AF_FORMAT_FLOAT
      else None)"

subsection \<open>compute_bitrate\<close>

definition samples_per_frame :: "int list list" where
  "samples_per_frame =
     [[- 1, 384, 1152, 1152],
      [- 1, 384, 1152, 576],
      [- 1, 384, 1152, 576],
      [- 1, - 1, - 1, - 1]]"

text \<open>
  \<open>(int) ((i->framesize + 4) * 8 * i->rate / samples_per_frame[i->version][i->layer] + 0.5)\<close>.
  The sum and the first product are \<open>int\<close>, the product with \<open>rate\<close> and the quotient
  are \<open>long\<close>: the division is the integer one. Only then is 0.5 added, in \<open>double\<close>,
  and the result converted to \<open>int\<close>. The \<open>double\<close> sum is exact whenever its integer
  part fits \<open>int\<close>, and does not fit \<open>int\<close> otherwise, so the rational sum decides both.
  An index outside the table is undefined behaviour.
\<close>

definition compute_bitrate :: "mpg123_frameinfo \<Rightarrow> int option" where
  "compute_bitrate i =
     do {
       a \<leftarrow> as_int (fi_framesize i + 4);
       b \<leftarrow> as_int (a * 8);
       c \<leftarrow> as_long (b * fi_rate i);
       spf \<leftarrow> (if 0 \<le> fi_version i \<and> fi_version i < 4 \<and> 0 \<le> fi_layer i \<and> fi_layer i < 4
               then Some (samples_per_frame ! nat (fi_version i) ! nat (fi_layer i))
               else None);
       q \<leftarrow> as_long (c_div c spf);
       as_int (c_trunc (of_int q + 1 / 2))
     }"

subsection \<open>update_info\<close>

text \<open>
  The first argument after the operations is what \<open>mpg123_info\<close> answers: its return
  value and the frame information.
\<close>

definition update_info ::
  "'f float_ops \<Rightarrow> int \<times> mpg123_frameinfo \<Rightarrow> ('f, 'd) dec_audio \<Rightarrow> ('f, 'd) dec_audio option"
where
  "update_info F info da =
     (let con = priv da; finfo = snd info in
      if fst info \<noteq> MPG123_OK then Some da
      else do {
        kbits \<leftarrow> as_int (fi_bitrate finfo * 1000);
        if fi_vbr finfo \<noteq> MPG123_CBR then
          (let d = delay con - 1 in
           if sint d < 1 then
             (let c1 = mean_count con + 1;
                  c = (if c1 > UINT_MAX div 2 then UINT_MAX div 4 else c1);
                  m = f_div F (f_add F (f_mul F (f_of_uint F (c - 1)) (mean_rate con))
                                       (f_of_int F kbits))
                              (f_of_uint F c)
              in do {
                b \<leftarrow> f_half_up_int F m;
                Some (da\<lparr>bitrate := b,
                         priv := con\<lparr>mean_count := c, mean_rate := m, delay := 10\<rparr>\<rparr>)
              })
           else Some (da\<lparr>priv := con\<lparr>delay := d\<rparr>\<rparr>))
        else do {
          b \<leftarrow> (if kbits \<noteq> 0 then Some kbits else compute_bitrate finfo);
          Some (da\<lparr>bitrate := b,
                   priv := con\<lparr>delay := 1, mean_rate := f_zero F, mean_count := 0\<rparr>\<rparr>)
        }
      })"

text \<open>The estimator over the frames of a stream, one \<open>mpg123_info\<close> answer per frame.\<close>

fun update_all ::
  "'f float_ops \<Rightarrow> ('f, 'd) dec_audio \<Rightarrow> (int \<times> mpg123_frameinfo) list
     \<Rightarrow> ('f, 'd) dec_audio option"
where
  "update_all F da [] = Some da"
| "update_all F da (info # infos) =
     (case update_info F info da of
        None \<Rightarrow> None
      | Some da' \<Rightarrow> update_all F da' infos)"

subsection \<open>set_format\<close>

text \<open>
  What \<open>mpg123_getformat\<close> answers: its return value, and the rate (long), the channel
  count and the encoding it stores.
\<close>

record getformat_result =
  gf_ret :: int
  gf_rate :: int
  gf_channels :: int
  gf_encoding :: int

text \<open>
  The assignment of the \<open>long\<close> rate to the \<open>int\<close> field keeps the low 32 bits. The
  product that gives \<open>sample_size\<close> is an \<open>int\<close> product.
\<close>

definition set_format ::
  "getformat_result \<Rightarrow> ('f, 'd) dec_audio \<Rightarrow> (int \<times> ('f, 'd) dec_audio) option"
where
  "set_format gf da =
     (if gf_ret gf = MPG123_OK then
        (let da1 = da\<lparr>decoded := mp_audio_set_num_channels (decoded da) (gf_channels gf)\<rparr>;
             da2 = da1\<lparr>decoded := (decoded da1)\<lparr>rate := sint (word_of_int (gf_rate gf) :: 32 word)\<rparr>\<rparr>
         in case mpg123_format_to_af (gf_encoding gf) of
              None \<Rightarrow> Some (MPG123_ERR, da2)
            | Some af \<Rightarrow>
                do {
                  sz \<leftarrow> as_int (gf_channels gf * af_fmt2bps af);
                  Some (gf_ret gf,
                        da2\<lparr>decoded := mp_audio_set_format (decoded da2) af,
                            priv := (priv da2)\<lparr>sample_size := sz\<rparr>\<rparr>)
                })
      else Some (gf_ret gf, da))"

subsection \<open>decode_packet\<close>

text \<open>
  The environment of one invocation: the packet that \<open>demux_read_packet\<close> yields (\<open>None\<close>
  for NULL) with its timestamp (\<open>None\<close> for \<open>MP_NOPTS_VALUE\<close>), the return value of
  \<open>mpg123_feed\<close>, the return value of \<open>mpg123_decode_frame\<close> with the buffer address and
  the byte count (\<open>size_t\<close>) it stores, and the answers of \<open>mpg123_getformat\<close> and
  \<open>mpg123_info\<close>.
\<close>

record 'd decode_env =
  demux_read_packet :: "'d option option"
  mpg123_feed :: int
  mpg123_decode_frame :: int
  audio :: nat
  bytes :: nat
  mpg123_getformat :: getformat_result
  mpg123_info :: "int \<times> mpg123_frameinfo"

text \<open>
  \<open>bytes / con->sample_size\<close> is an unsigned division (\<open>sample_size\<close> is at least 1
  there); its conversion to \<open>int\<close> keeps the low 32 bits.
\<close>

definition decode_packet ::
  "'f float_ops \<Rightarrow> 'd decode_env \<Rightarrow> ('f, 'd) dec_audio \<Rightarrow> (int \<times> ('f, 'd) dec_audio) option"
where
  "decode_packet F env da0 =
     (let da = da0\<lparr>decoded := mp_audio_set_null_data (decoded da0)\<rparr> in
      case demux_read_packet env of
        None \<Rightarrow> Some (AD_EOF, da)
      | Some pkt_pts \<Rightarrow>
          (let da = (case pkt_pts of
                       None \<Rightarrow> da
                     | Some t \<Rightarrow> da\<lparr>pts := t, pts_offset := 0\<rparr>)
           in
           if mpg123_feed env \<noteq> MPG123_OK then Some (AD_ERR, da)
           else if mpg123_decode_frame env = MPG123_NEED_MORE then Some (0, da)
           else if mpg123_decode_frame env \<noteq> MPG123_OK \<and> mpg123_decode_frame env \<noteq> MPG123_DONE
                   \<and> mpg123_decode_frame env \<noteq> MPG123_NEW_FORMAT then Some (AD_ERR, da)
           else do {
             (ret, da) \<leftarrow> set_format (mpg123_getformat env) da;
             if ret \<noteq> MPG123_OK then Some (AD_ERR, da)
             else if sample_size (priv da) < 1 then Some (AD_ERR, da)
             else do {
               let got_samples =
                 sint (word_of_nat (bytes env div nat (sample_size (priv da))) :: 32 word);
               off \<leftarrow> as_int (pts_offset da + got_samples);
               da' \<leftarrow> update_info F (mpg123_info env)
                       (da\<lparr>decoded := (decoded da)\<lparr>planes0 := audio env, samples := got_samples\<rparr>,
                           pts_offset := off\<rparr>);
               Some (0, da')
             }
           }))"

subsection \<open>The state in which the library is fed\<close>

text \<open>
  The first lines of \<open>decode_packet\<close>, up to the call of \<open>mpg123_feed\<close>: the descriptor
  is cleared, and a packet with a timestamp sets \<open>pts\<close> and restarts \<open>pts_offset\<close>.
\<close>

definition fed :: "'d decode_env \<Rightarrow> ('f, 'd) dec_audio \<Rightarrow> ('f, 'd) dec_audio" where
  "fed env da =
     (case demux_read_packet env of
        Some (Some t) \<Rightarrow>
          da\<lparr>decoded := mp_audio_set_null_data (decoded da), pts := t, pts_offset := 0\<rparr>
      | _ \<Rightarrow> da\<lparr>decoded := mp_audio_set_null_data (decoded da)\<rparr>)"

subsection \<open>Concrete inputs\<close>

text \<open>
  A session right after \<open>init\<close>, with exact arithmetic: the context is zeroed, and so is
  the descriptor of the host.
\<close>

definition fresh_session :: "(rat, rat) dec_audio" where
  "fresh_session = \<lparr> decoded = \<lparr> nch = 0, rate = 0, format = None, planes0 = 0, samples = 0 \<rparr>,
                      bitrate = 0, pts = 0, pts_offset = 0, priv = init_context exact_ops \<rparr>"

text \<open>A session after one refresh at 128 kbit/s, one frame before the next refresh.\<close>

definition mid_session :: "(rat, rat) dec_audio" where
  "mid_session = fresh_session\<lparr>bitrate := 128000,
      priv := (priv fresh_session)\<lparr>mean_count := 1, mean_rate := 128000, delay := 1\<rparr>\<rparr>"

text \<open>A session whose observation counter is \<open>UINT_MAX / 2\<close>.\<close>

definition full_session :: "(rat, rat) dec_audio" where
  "full_session = fresh_session\<lparr>bitrate := 128000,
      priv := (priv fresh_session)\<lparr>mean_count := 2147483647, mean_rate := 128000, delay := 1\<rparr>\<rparr>"

text \<open>
  A constant-bitrate frame of MPEG 1.0 layer III, 417 bytes at 44100 Hz, whose reported
  bitrate is zero.
\<close>

definition example_frame :: mpg123_frameinfo where
  "example_frame = \<lparr> fi_version = 0, fi_layer = 3, fi_rate = 44100, fi_framesize = 417,
                       fi_bitrate = 0, fi_vbr = MPG123_CBR \<rparr>"

text \<open>Frames of 128 kbit/s (constant and variable) and of 64 kbit/s (variable).\<close>

definition cbr128 :: mpg123_frameinfo where
  "cbr128 = \<lparr> fi_version = 0, fi_layer = 3, fi_rate = 44100, fi_framesize = 417,
                fi_bitrate = 128, fi_vbr = MPG123_CBR \<rparr>"

definition vbr128 :: mpg123_frameinfo where
  "vbr128 = \<lparr> fi_version = 0, fi_layer = 3, fi_rate = 44100, fi_framesize = 417,
                fi_bitrate = 128, fi_vbr = MPG123_VBR \<rparr>"

definition vbr64 :: mpg123_frameinfo where
  "vbr64 = \<lparr> fi_version = 0, fi_layer = 3, fi_rate = 44100, fi_framesize = 208,
               fi_bitrate = 64, fi_vbr = MPG123_VBR \<rparr>"

text \<open>
  An invocation in which everything succeeds: a packet without timestamp, 4609 decoded
  bytes of 16-bit stereo (4 bytes per sample frame), a constant-bitrate frame.
\<close>

definition example_env :: "rat decode_env" where
  "example_env = \<lparr> demux_read_packet = Some None,
                    mpg123_feed = MPG123_OK,
                    mpg123_decode_frame = MPG123_OK,
                    audio = 4096,
                    bytes = 4609,
                    mpg123_getformat = \<lparr> gf_ret = MPG123_OK, gf_rate = 44100, gf_channels = 2,
                                          gf_encoding = MPG123_ENC_SIGNED_16 \<rparr>,
                    mpg123_info = (MPG123_OK, cbr128) \<rparr>"

text \<open>
  Variants of it: the decoder wants more input; the format has no channels; the feed call
  answers with the code of "need more"; the format query fails.
\<close>

definition need_more_env :: "rat decode_env" where
  "need_more_env = example_env\<lparr>mpg123_decode_frame := MPG123_NEED_MORE\<rparr>"

definition no_channels_env :: "rat decode_env" where
  "no_channels_env =
     example_env\<lparr>mpg123_getformat := (mpg123_getformat example_env)\<lparr>gf_channels := 0\<rparr>\<rparr>"

definition feed_need_more_env :: "rat decode_env" where
  "feed_need_more_env = example_env\<lparr>mpg123_feed := MPG123_NEED_MORE\<rparr>"

definition getformat_err_env :: "rat decode_env" where
  "getformat_err_env =
     example_env\<lparr>mpg123_getformat := (mpg123_getformat example_env)\<lparr>gf_ret := MPG123_ERR\<rparr>\<rparr>"

text \<open>A session in the middle of a packet, 100 samples after the last timestamp.\<close>

definition offset_session :: "(rat, rat) dec_audio" where
  "offset_session = mid_session\<lparr>pts_offset := 100\<rparr>"

section \<open>Properties\<close>

subsection \<open>Integer helpers\<close>

lemmas c_ranges = in_int_def in_long_def INT_MIN_def INT_MAX_def LONG_MIN_def LONG_MAX_def

lemma c_trunc_half: "c_trunc (of_int q + 1 / 2) = (if 0 \<le> q then q else q + 1)"
proof (cases "0 \<le> q")
  case True
  then have "\<not> (of_int q + 1 / 2 :: rat) < 0"
    by (simp add: not_less)
  moreover have "\<lfloor>of_int q + 1 / 2 :: rat\<rfloor> = q"
    by (simp add: floor_unique)
  ultimately show ?thesis using True by (simp add: c_trunc_def)
next
  case False
  then have "q + 1 \<le> 0" by simp
  then have "(of_int (q + 1) :: rat) \<le> 0" by (simp only: of_int_le_0_iff)
  then have "(of_int q + 1 / 2 :: rat) < 0" by simp
  moreover have "\<lceil>of_int q + 1 / 2 :: rat\<rceil> = q + 1"
    by (rule ceiling_unique) simp_all
  ultimately show ?thesis using False by (simp add: c_trunc_def)
qed

lemma c_div_nonneg: "0 \<le> a \<Longrightarrow> 0 < b \<Longrightarrow> c_div a b = a div b"
  by (simp add: c_div_def)

subsection \<open>compute_bitrate\<close>

lemma samples_per_frame_valid:
  assumes "v \<in> {0, 1, 2}" and "l \<in> {1, 2, 3}"
  shows "samples_per_frame ! nat v ! nat l \<in> {384, 576, 1152}"
  using assms by (auto simp: samples_per_frame_def)

text \<open>
  For a known version and layer, a frame size and a rate that are not negative, and as
  long as no intermediate value leaves its type, \<open>compute_bitrate\<close> is the integer
  quotient: the 0.5 is added to a value that is already an integer, and the conversion
  removes it again.
\<close>

lemma compute_bitrate_valid:
  assumes v: "fi_version i \<in> {0, 1, 2}" and l: "fi_layer i \<in> {1, 2, 3}"
    and fs: "0 \<le> fi_framesize i" "(fi_framesize i + 4) * 8 \<le> INT_MAX"
    and r: "0 \<le> fi_rate i" "(fi_framesize i + 4) * 8 * fi_rate i \<le> LONG_MAX"
    and q: "(fi_framesize i + 4) * 8 * fi_rate i
              div samples_per_frame ! nat (fi_version i) ! nat (fi_layer i) \<le> INT_MAX"
  shows "compute_bitrate i =
           Some ((fi_framesize i + 4) * 8 * fi_rate i
                   div samples_per_frame ! nat (fi_version i) ! nat (fi_layer i))"
proof -
  let ?spf = "samples_per_frame ! nat (fi_version i) ! nat (fi_layer i)"
  let ?n = "(fi_framesize i + 4) * 8 * fi_rate i"
  have spf: "0 < ?spf" using samples_per_frame_valid [OF v l] by auto
  have idx: "0 \<le> fi_version i \<and> fi_version i < 4 \<and> 0 \<le> fi_layer i \<and> fi_layer i < 4"
    using v l by auto
  have a: "as_int (fi_framesize i + 4) = Some (fi_framesize i + 4)"
    using fs by (simp add: as_int_def c_ranges)
  have b: "as_int ((fi_framesize i + 4) * 8) = Some ((fi_framesize i + 4) * 8)"
    using fs by (simp add: as_int_def c_ranges)
  have n0: "0 \<le> ?n" using fs r by simp
  have c: "as_long ?n = Some ?n"
    using n0 r by (simp add: as_long_def c_ranges)
  have q0: "0 \<le> ?n div ?spf" using n0 spf by (simp add: pos_imp_zdiv_nonneg_iff)
  have d: "c_div ?n ?spf = ?n div ?spf" using n0 spf by (rule c_div_nonneg)
  have e: "as_long (?n div ?spf) = Some (?n div ?spf)"
    using q0 q by (simp add: as_long_def c_ranges)
  have f: "as_int (c_trunc (of_int (?n div ?spf) + 1 / 2)) = Some (?n div ?spf)"
    using q0 q by (simp add: c_trunc_half as_int_def c_ranges)
  show ?thesis
    unfolding compute_bitrate_def
    by (simp only: a b c d e f idx Option.bind.simps simp_thms if_True)
qed

text \<open>
  The quotient is not rounded to the nearest integer: 422 * 8 * 48000 / 1152 is
  140666.67, and the estimate is 140666.
\<close>

lemma compute_bitrate_truncates:
  "compute_bitrate \<lparr> fi_version = 0, fi_layer = 3, fi_rate = 48000, fi_framesize = 418,
                      fi_bitrate = 0, fi_vbr = MPG123_CBR \<rparr> = Some 140666"
  by code_simp

subsection \<open>The branches of update_info\<close>

lemma update_info_not_ok: "fst info \<noteq> MPG123_OK \<Longrightarrow> update_info F info da = Some da"
  by (simp add: update_info_def Let_def)

lemma update_info_cbr:
  assumes "fst info = MPG123_OK" and "fi_vbr (snd info) = MPG123_CBR"
    and "in_int (fi_bitrate (snd info) * 1000)"
    and "(if fi_bitrate (snd info) \<noteq> 0 then Some (fi_bitrate (snd info) * 1000)
          else compute_bitrate (snd info)) = Some b"
  shows "update_info F info da =
           Some (da\<lparr>bitrate := b,
                    priv := (priv da)\<lparr>delay := 1, mean_rate := f_zero F, mean_count := 0\<rparr>\<rparr>)"
  using assms by (simp add: update_info_def Let_def as_int_def)

lemma update_info_vbr_wait:
  assumes "fst info = MPG123_OK" and "fi_vbr (snd info) \<noteq> MPG123_CBR"
    and "in_int (fi_bitrate (snd info) * 1000)"
    and "\<not> sint (delay (priv da) - 1) < 1"
  shows "update_info F info da = Some (da\<lparr>priv := (priv da)\<lparr>delay := delay (priv da) - 1\<rparr>\<rparr>)"
  using assms by (simp add: update_info_def Let_def as_int_def)

lemma update_info_vbr_refresh:
  assumes "fst info = MPG123_OK" and "fi_vbr (snd info) \<noteq> MPG123_CBR"
    and "in_int (fi_bitrate (snd info) * 1000)"
    and "sint (delay (priv da) - 1) < 1"
    and "count = (if mean_count (priv da) + 1 > UINT_MAX div 2 then UINT_MAX div 4
                  else mean_count (priv da) + 1)"
    and "new_mean = f_div F (f_add F (f_mul F (f_of_uint F (count - 1)) (mean_rate (priv da)))
                                     (f_of_int F (fi_bitrate (snd info) * 1000)))
                            (f_of_uint F count)"
    and "f_half_up_int F new_mean = Some b"
  shows "update_info F info da =
           Some (da\<lparr>bitrate := b,
                    priv := (priv da)\<lparr>mean_count := count, mean_rate := new_mean, delay := 10\<rparr>\<rparr>)"
  using assms by (simp add: update_info_def Let_def as_int_def)

text \<open>Every defined update is one of four: nothing, the reset, the countdown, the refresh.\<close>

lemma update_info_cases:
  assumes "update_info F info da = Some da'"
  obtains
    (not_ok) "fst info \<noteq> MPG123_OK" "da' = da"
  | (cbr) b where "fst info = MPG123_OK" "fi_vbr (snd info) = MPG123_CBR"
      "da' = da\<lparr>bitrate := b,
                 priv := (priv da)\<lparr>delay := 1, mean_rate := f_zero F, mean_count := 0\<rparr>\<rparr>"
  | (wait) "fst info = MPG123_OK" "fi_vbr (snd info) \<noteq> MPG123_CBR"
      "\<not> sint (delay (priv da) - 1) < 1"
      "da' = da\<lparr>priv := (priv da)\<lparr>delay := delay (priv da) - 1\<rparr>\<rparr>"
  | (refresh) b m where "fst info = MPG123_OK" "fi_vbr (snd info) \<noteq> MPG123_CBR"
      "sint (delay (priv da) - 1) < 1"
      "da' = da\<lparr>bitrate := b,
                 priv := (priv da)\<lparr>mean_count :=
                            (if mean_count (priv da) + 1 > UINT_MAX div 2 then UINT_MAX div 4
                             else mean_count (priv da) + 1),
                          mean_rate := m, delay := 10\<rparr>\<rparr>"
proof (cases "fst info = MPG123_OK")
  case False
  with assms have "da' = da" by (simp add: update_info_def Let_def)
  with False show ?thesis by (rule not_ok)
next
  case ok: True
  show ?thesis
  proof (cases "fi_vbr (snd info) = MPG123_CBR")
    case True
    with ok assms obtain b where
      "da' = da\<lparr>bitrate := b,
                 priv := (priv da)\<lparr>delay := 1, mean_rate := f_zero F, mean_count := 0\<rparr>\<rparr>"
      by (auto simp: update_info_def Let_def split: bind_splits)
    with ok True show ?thesis by (rule cbr)
  next
    case vbr: False
    show ?thesis
    proof (cases "sint (delay (priv da) - 1) < 1")
      case False
      with ok vbr assms have "da' = da\<lparr>priv := (priv da)\<lparr>delay := delay (priv da) - 1\<rparr>\<rparr>"
        by (auto simp: update_info_def Let_def split: bind_splits)
      with ok vbr False show ?thesis by (rule wait)
    next
      case True
      with ok vbr assms obtain b m where
        "da' = da\<lparr>bitrate := b,
                 priv := (priv da)\<lparr>mean_count :=
                            (if mean_count (priv da) + 1 > UINT_MAX div 2 then UINT_MAX div 4
                             else mean_count (priv da) + 1),
                          mean_rate := m, delay := 10\<rparr>\<rparr>"
        by (auto simp: update_info_def Let_def split: bind_splits)
      with ok vbr True show ?thesis by (rule refresh)
    qed
  qed
qed

lemma update_info_frame:
  assumes "update_info F info da = Some da'"
  shows "decoded da' = decoded da \<and> pts da' = pts da \<and> pts_offset da' = pts_offset da
         \<and> sample_size (priv da') = sample_size (priv da)"
  using assms by (cases rule: update_info_cases) simp_all

subsection \<open>A constant-bitrate frame that reports no bitrate\<close>

text \<open>
  C5, as stated, fails: for the frame of the claim (MPEG 1.0 layer III, 417 bytes, 44100 Hz)
  the estimate is 128931 bits per second, not 134420.
\<close>

theorem cbr_zero_bitrate_counterexample:
  "map_option bitrate (update_info exact_ops (MPG123_OK, example_frame) fresh_session)
     = Some 128931
   \<and> compute_bitrate example_frame \<noteq> Some 134420"
  by code_simp

text \<open>
  C5, amended: for a constant-bitrate frame whose reported bitrate is zero, with a known
  version and layer, the estimate becomes the value of \<open>compute_bitrate\<close>, which is less
  than 1 away from (framesize + 4) * 8 * rate / samples_per_frame and equal to it when
  the division is exact; for MPEG 1.0 layer III, 417 bytes and 44100 Hz it is 128931.
\<close>

theorem cbr_zero_bitrate_fallback:
  assumes "fst info = MPG123_OK" and "fi_vbr (snd info) = MPG123_CBR"
    and "fi_bitrate (snd info) = 0"
    and "fi_version (snd info) \<in> {0, 1, 2}" and "fi_layer (snd info) \<in> {1, 2, 3}"
    and "0 \<le> fi_framesize (snd info)" and "(fi_framesize (snd info) + 4) * 8 \<le> INT_MAX"
    and "0 \<le> fi_rate (snd info)"
    and "(fi_framesize (snd info) + 4) * 8 * fi_rate (snd info) \<le> LONG_MAX"
    and "(fi_framesize (snd info) + 4) * 8 * fi_rate (snd info)
           div samples_per_frame ! nat (fi_version (snd info)) ! nat (fi_layer (snd info))
         \<le> INT_MAX"
  shows "(\<exists>r. compute_bitrate (snd info) = Some r
            \<and> map_option bitrate (update_info F info da) = Some r
            \<and> (let n = (fi_framesize (snd info) + 4) * 8 * fi_rate (snd info);
                    spf = samples_per_frame ! nat (fi_version (snd info))
                            ! nat (fi_layer (snd info))
                in \<bar>r * spf - n\<bar> < spf \<and> (spf dvd n \<longrightarrow> r * spf = n)))
         \<and> compute_bitrate example_frame = Some 128931"
proof -
  let ?fi = "snd info"
  let ?n = "(fi_framesize ?fi + 4) * 8 * fi_rate ?fi"
  let ?spf = "samples_per_frame ! nat (fi_version ?fi) ! nat (fi_layer ?fi)"
  have cb: "compute_bitrate ?fi = Some (?n div ?spf)"
    using assms(4-10) by (rule compute_bitrate_valid)
  have spf: "0 < ?spf" using samples_per_frame_valid [OF assms(4,5)] by auto
  have "update_info F info da =
          Some (da\<lparr>bitrate := ?n div ?spf,
                   priv := (priv da)\<lparr>delay := 1, mean_rate := f_zero F, mean_count := 0\<rparr>\<rparr>)"
    using assms(1-3) cb by (intro update_info_cbr) (simp_all add: c_ranges)
  then have upd: "map_option bitrate (update_info F info da) = Some (?n div ?spf)" by simp
  have "?n div ?spf * ?spf - ?n = - (?n mod ?spf)"
    by (simp add: algebra_simps minus_mod_eq_mult_div [symmetric])
  moreover have "0 \<le> ?n mod ?spf" "?n mod ?spf < ?spf" using spf by simp_all
  ultimately have near: "\<bar>?n div ?spf * ?spf - ?n\<bar> < ?spf" by simp
  have exact: "?spf dvd ?n \<longrightarrow> ?n div ?spf * ?spf = ?n" by simp
  have ex: "compute_bitrate example_frame = Some 128931" by code_simp
  from cb upd near exact ex show ?thesis by (simp add: Let_def)
qed

theorem cbr_zero_bitrate_fallback_witness:
  "map_option bitrate
     (update_info exact_ops
        (MPG123_OK, \<lparr> fi_version = 0, fi_layer = 3, fi_rate = 48000, fi_framesize = 416,
                       fi_bitrate = 0, fi_vbr = MPG123_CBR \<rparr>) fresh_session) = Some 140000"
proof -
  have spf: "samples_per_frame ! 0 ! 3 = 1152" by (simp add: samples_per_frame_def)
  show ?thesis
    using cbr_zero_bitrate_fallback
      [of "(MPG123_OK, \<lparr> fi_version = 0, fi_layer = 3, fi_rate = 48000, fi_framesize = 416,
                           fi_bitrate = 0, fi_vbr = MPG123_CBR \<rparr>)" exact_ops fresh_session]
    by (auto simp: spf c_ranges Let_def)
qed

subsection \<open>Constant-bitrate streams\<close>

lemma update_all_cbr:
  assumes "\<forall>i \<in> set infos. fst i = MPG123_OK \<and> fi_vbr (snd i) = MPG123_CBR
              \<and> fi_bitrate (snd i) = B"
    and "B \<noteq> 0" and "in_int (B * 1000)"
  shows "update_all F da infos =
           Some (if infos = [] then da
                 else da\<lparr>bitrate := B * 1000,
                         priv := (priv da)\<lparr>delay := 1, mean_rate := f_zero F, mean_count := 0\<rparr>\<rparr>)"
  using assms(1)
proof (induction infos arbitrary: da)
  case Nil
  then show ?case by simp
next
  case (Cons i infos)
  let ?da1 = "da\<lparr>bitrate := B * 1000,
                  priv := (priv da)\<lparr>delay := 1, mean_rate := f_zero F, mean_count := 0\<rparr>\<rparr>"
  have i: "fst i = MPG123_OK" "fi_vbr (snd i) = MPG123_CBR" "fi_bitrate (snd i) = B"
    using Cons.prems by simp_all
  have step: "update_info F i da = Some ?da1"
    using i assms(2,3) by (intro update_info_cbr) simp_all
  have rest: "update_all F ?da1 infos = Some (if infos = [] then ?da1 else ?da1)"
    using Cons.IH [of ?da1] Cons.prems by simp
  show ?case using step rest by simp
qed

text \<open>
  C1, as stated, fails when the reported bitrate B is zero: the estimate is then the value
  of \<open>compute_bitrate\<close>, here 128931, and not B * 1000 = 0.
\<close>

theorem cbr_bitrate_counterexample:
  "fi_vbr example_frame = MPG123_CBR
   \<and> fi_bitrate example_frame * 1000 = 0
   \<and> map_option bitrate (update_info exact_ops (MPG123_OK, example_frame) fresh_session)
       = Some 128931"
  by code_simp

text \<open>
  C1, amended: for every stream whose frames are all constant-bitrate with the same
  reported bitrate B, where B is not zero (and B * 1000 fits \<open>int\<close>), the visible
  estimate is B * 1000 right after the first frame, from any state of the session, and
  after every further frame.
\<close>

theorem cbr_bitrate_immediate:
  assumes "infos \<noteq> []"
    and "\<forall>i \<in> set infos. fst i = MPG123_OK \<and> fi_vbr (snd i) = MPG123_CBR
              \<and> fi_bitrate (snd i) = B"
    and "B \<noteq> 0" and "in_int (B * 1000)"
  shows "map_option bitrate (update_info F (hd infos) da) = Some (B * 1000)
         \<and> map_option bitrate (update_all F da infos) = Some (B * 1000)"
proof -
  have "hd infos \<in> set infos" using assms(1) by simp
  then have h: "fst (hd infos) = MPG123_OK" "fi_vbr (snd (hd infos)) = MPG123_CBR"
    "fi_bitrate (snd (hd infos)) = B"
    using assms(2) by blast+
  have "update_info F (hd infos) da =
          Some (da\<lparr>bitrate := B * 1000,
                   priv := (priv da)\<lparr>delay := 1, mean_rate := f_zero F, mean_count := 0\<rparr>\<rparr>)"
    using h assms(3,4) by (intro update_info_cbr) simp_all
  moreover have "update_all F da infos =
          Some (da\<lparr>bitrate := B * 1000,
                   priv := (priv da)\<lparr>delay := 1, mean_rate := f_zero F, mean_count := 0\<rparr>\<rparr>)"
    using update_all_cbr [OF assms(2-4), of F da] assms(1) by simp
  ultimately show ?thesis by simp
qed

theorem cbr_bitrate_immediate_witness:
  "map_option bitrate (update_info exact_ops (MPG123_OK, cbr128) mid_session) = Some 128000
   \<and> map_option bitrate
        (update_all exact_ops mid_session [(MPG123_OK, cbr128), (MPG123_OK, cbr128)])
       = Some 128000"
  using cbr_bitrate_immediate
    [of "[(MPG123_OK, cbr128), (MPG123_OK, cbr128)]" 128 exact_ops mid_session]
  by (simp add: cbr128_def c_ranges)

text \<open>
  C9, as stated, fails for the delay counter: a constant-bitrate frame sets it to 1, not
  to 0.
\<close>

theorem cbr_reset_counterexample:
  "map_option (delay \<circ> priv) (update_info exact_ops (MPG123_OK, cbr128) mid_session) = Some 1
   \<and> map_option (delay \<circ> priv) (update_info exact_ops (MPG123_OK, cbr128) mid_session)
       \<noteq> Some 0"
  by code_simp

text \<open>
  C9, amended: whenever a constant-bitrate frame is observed (and the update is defined),
  \<open>mean_rate\<close> and \<open>mean_count\<close> are reset to zero and the delay counter is set to 1,
  whatever the state was before; the rest of the session, the visible bitrate apart, is
  unchanged.
\<close>

theorem cbr_resets_estimator:
  assumes "fst info = MPG123_OK" and "fi_vbr (snd info) = MPG123_CBR"
    and "in_int (fi_bitrate (snd info) * 1000)"
    and "fi_bitrate (snd info) \<noteq> 0 \<or> compute_bitrate (snd info) \<noteq> None"
  shows "\<exists>b. update_info F info da =
           Some (da\<lparr>bitrate := b,
                    priv := (priv da)\<lparr>delay := 1, mean_rate := f_zero F, mean_count := 0\<rparr>\<rparr>)"
proof -
  obtain b where "(if fi_bitrate (snd info) \<noteq> 0 then Some (fi_bitrate (snd info) * 1000)
          else compute_bitrate (snd info)) = Some b"
    using assms(4) by (cases "fi_bitrate (snd info) = 0") auto
  with assms(1-3) show ?thesis by (blast intro: update_info_cbr)
qed

theorem cbr_resets_estimator_witness:
  "\<exists>b. update_info exact_ops (MPG123_OK, cbr128) mid_session =
          Some (mid_session\<lparr>bitrate := b,
                  priv := (priv mid_session)\<lparr>delay := 1, mean_rate := 0, mean_count := 0\<rparr>\<rparr>)"
  using cbr_resets_estimator [of "(MPG123_OK, cbr128)" exact_ops mid_session]
  by (simp add: cbr128_def c_ranges exact_ops_def)

subsection \<open>Variable-bitrate streams: the counters\<close>

lemma UINT_MAX_half: "UINT_MAX div 2 = 2147483647"
  by (simp add: UINT_MAX_def)

lemma UINT_MAX_quarter: "UINT_MAX div 4 = 1073741823"
  by (simp add: UINT_MAX_def)

lemma count_no_wrap:
  fixes c :: "32 word"
  assumes "c \<le> UINT_MAX div 2"
  shows "unat (c + 1) = unat c + 1"
proof -
  have "unat c \<le> 2147483647"
    using assms by (simp add: UINT_MAX_half word_le_nat_alt)
  then show ?thesis by (simp add: unat_word_ariths)
qed

lemma count_capped:
  fixes c :: "32 word"
  shows "(if c + 1 > UINT_MAX div 2 then UINT_MAX div 4 else c + 1) \<le> UINT_MAX div 2"
  by (simp add: UINT_MAX_half UINT_MAX_quarter not_less)

lemma sint_dec:
  fixes d :: "16 word"
  assumes "- 32768 < sint d"
  shows "sint (d - 1) = sint d - 1"
proof -
  have "sint d < 2 ^ (LENGTH(16) - 1)" by (rule sint_lt)
  then have "sint d - 1 < 2 ^ 15" "- (2 ^ 15) \<le> sint d - 1"
    using assms by simp_all
  then have "signed_take_bit 15 (sint d - 1) = sint d - 1"
    by (simp add: signed_take_bit_int_eq_self)
  then show ?thesis by (simp add: sint_word_diff)
qed

lemma update_info_mean_count:
  assumes "update_info F info da = Some da'"
  shows "mean_count (priv da') \<in>
           {mean_count (priv da), 0,
            (if mean_count (priv da) + 1 > UINT_MAX div 2 then UINT_MAX div 4
             else mean_count (priv da) + 1)}"
  using assms by (cases rule: update_info_cases) simp_all

lemma update_info_count_bound:
  assumes "mean_count (priv da) \<le> UINT_MAX div 2" and "update_info F info da = Some da'"
  shows "mean_count (priv da') \<le> UINT_MAX div 2"
  using update_info_mean_count [OF assms(2)] assms(1) count_capped [of "mean_count (priv da)"]
  by auto

lemma update_all_count_bound:
  assumes "mean_count (priv da) \<le> UINT_MAX div 2" and "update_all F da infos = Some da'"
  shows "mean_count (priv da') \<le> UINT_MAX div 2"
  using assms
proof (induction infos arbitrary: da)
  case Nil
  then show ?case by simp
next
  case (Cons i infos)
  from Cons.prems(2) obtain da1 where
    step: "update_info F i da = Some da1" and rest: "update_all F da1 infos = Some da'"
    by (auto split: option.splits)
  from Cons.prems(1) step have "mean_count (priv da1) \<le> UINT_MAX div 2"
    by (rule update_info_count_bound)
  then show ?case using rest by (rule Cons.IH)
qed

text \<open>
  While the counter is above the number of frames still to come, each variable-bitrate
  frame only decrements it.
\<close>

lemma vbr_countdown:
  assumes "\<forall>i \<in> set infos. fst i = MPG123_OK \<and> fi_vbr (snd i) \<noteq> MPG123_CBR
              \<and> in_int (fi_bitrate (snd i) * 1000)"
    and "int (length infos) < sint (delay (priv da))"
  shows "update_all F da infos =
           Some (da\<lparr>priv := (priv da)\<lparr>delay := delay (priv da) - of_nat (length infos)\<rparr>\<rparr>)"
  using assms
proof (induction infos arbitrary: da)
  case Nil
  then show ?case by simp
next
  case (Cons i infos)
  let ?d = "delay (priv da)"
  let ?da1 = "da\<lparr>priv := (priv da)\<lparr>delay := ?d - 1\<rparr>\<rparr>"
  have i: "fst i = MPG123_OK" "fi_vbr (snd i) \<noteq> MPG123_CBR"
    "in_int (fi_bitrate (snd i) * 1000)"
    using Cons.prems(1) by simp_all
  have big: "int (length infos) + 1 < sint ?d" using Cons.prems(2) by simp
  then have dec: "sint (?d - 1) = sint ?d - 1" by (intro sint_dec) simp
  then have "\<not> sint (?d - 1) < 1" using big by simp
  with i have step: "update_info F i da = Some ?da1" by (rule update_info_vbr_wait)
  have "update_all F ?da1 infos =
          Some (?da1\<lparr>priv := (priv ?da1)\<lparr>delay := delay (priv ?da1) - of_nat (length infos)\<rparr>\<rparr>)"
    using Cons.prems(1) big dec by (intro Cons.IH) simp_all
  with step show ?case by (simp add: algebra_simps)
qed

subsection \<open>The running mean\<close>

text \<open>
  C3: on every refresh (a variable-bitrate frame for which the decremented delay counter
  is below 1) the new mean is ((count - 1) * old_mean + new_bitrate) / count in float
  arithmetic, where new_bitrate is the reported bitrate times 1000 and count is the
  observation counter after its increment, the value that is stored: the old counter
  plus 1, or \<open>UINT_MAX / 4\<close> when the increment exceeds \<open>UINT_MAX / 2\<close>. The visible bitrate is
  the new mean plus 0.5, converted to \<open>int\<close>.
\<close>

theorem vbr_running_mean:
  assumes "fst info = MPG123_OK" and "fi_vbr (snd info) \<noteq> MPG123_CBR"
    and "in_int (fi_bitrate (snd info) * 1000)"
    and "sint (delay (priv da) - 1) < 1"
    and "count = (if mean_count (priv da) + 1 > UINT_MAX div 2 then UINT_MAX div 4
                  else mean_count (priv da) + 1)"
    and "new_bitrate = fi_bitrate (snd info) * 1000"
    and "new_mean = f_div F (f_add F (f_mul F (f_of_uint F (count - 1)) (mean_rate (priv da)))
                                     (f_of_int F new_bitrate))
                            (f_of_uint F count)"
    and "f_half_up_int F new_mean = Some b"
  shows "update_info F info da =
           Some (da\<lparr>bitrate := b,
                    priv := (priv da)\<lparr>mean_count := count, mean_rate := new_mean, delay := 10\<rparr>\<rparr>)"
  using assms by (simp add: update_info_def Let_def as_int_def)

theorem vbr_running_mean_witness:
  "update_info exact_ops (MPG123_OK, vbr64) mid_session
   = Some (mid_session\<lparr>bitrate := 96000,
                       priv := (priv mid_session)\<lparr>mean_count := 2, mean_rate := 96000, delay := 10\<rparr>\<rparr>)"
proof -
  have h1: "fst (MPG123_OK, vbr64) = MPG123_OK" by simp
  have h2: "fi_vbr (snd (MPG123_OK, vbr64)) \<noteq> MPG123_CBR"
    by (simp add: vbr64_def MPG123_VBR_def MPG123_CBR_def)
  have h3: "in_int (fi_bitrate (snd (MPG123_OK, vbr64)) * 1000)"
    by (simp add: vbr64_def c_ranges)
  have h4: "sint (delay (priv mid_session) - 1) < 1"
    by (simp add: mid_session_def)
  have h5: "(2 :: 32 word) =
              (if mean_count (priv mid_session) + 1 > UINT_MAX div 2 then UINT_MAX div 4
               else mean_count (priv mid_session) + 1)"
    by (simp add: mid_session_def UINT_MAX_half)
  have h6: "(64000 :: int) = fi_bitrate (snd (MPG123_OK, vbr64)) * 1000"
    by (simp add: vbr64_def)
  have h7: "(96000 :: rat) =
              f_div exact_ops
                (f_add exact_ops
                   (f_mul exact_ops (f_of_uint exact_ops (2 - 1)) (mean_rate (priv mid_session)))
                   (f_of_int exact_ops 64000))
                (f_of_uint exact_ops 2)"
    by (simp add: mid_session_def exact_ops_def)
  have h8: "f_half_up_int exact_ops 96000 = Some 96000"
    by code_simp
  show ?thesis
    by (rule vbr_running_mean [OF h1 h2 h3 h4 h5 h6 h7 h8])
qed

subsection \<open>The observation counter\<close>

text \<open>
  C4: over every sequence of updates that starts with \<open>mean_count\<close> at most \<open>UINT_MAX / 2\<close>
  (a new session starts at 0), \<open>mean_count\<close> stays at most \<open>UINT_MAX / 2\<close>, so its next
  increment does not wrap around; and an update leaves it as it is, resets it to 0, or
  increments it, with \<open>UINT_MAX / 4\<close> in place of an increment that exceeds \<open>UINT_MAX / 2\<close>.
\<close>

theorem mean_count_never_overflows:
  assumes "mean_count (priv da) \<le> UINT_MAX div 2" and "update_all F da infos = Some da'"
  shows "mean_count (priv da') \<le> UINT_MAX div 2
         \<and> unat (mean_count (priv da') + 1) = unat (mean_count (priv da')) + 1
         \<and> (\<forall>info da''. update_info F info da' = Some da'' \<longrightarrow>
               mean_count (priv da'') \<in>
                 {mean_count (priv da'), 0,
                  (if mean_count (priv da') + 1 > UINT_MAX div 2 then UINT_MAX div 4
                   else mean_count (priv da') + 1)})"
proof -
  have b: "mean_count (priv da') \<le> UINT_MAX div 2"
    using assms by (rule update_all_count_bound)
  then have "unat (mean_count (priv da') + 1) = unat (mean_count (priv da')) + 1"
    by (rule count_no_wrap)
  with b show ?thesis by (blast dest: update_info_mean_count)
qed

lemma full_session_step:
  "update_info exact_ops (MPG123_OK, vbr128) full_session
   = Some (full_session\<lparr>bitrate := 128000,
             priv := (priv full_session)\<lparr>mean_count := 1073741823, mean_rate := 128000,
                       delay := 10\<rparr>\<rparr>)"
proof -
  have h1: "fst (MPG123_OK, vbr128) = MPG123_OK" by simp
  have h2: "fi_vbr (snd (MPG123_OK, vbr128)) \<noteq> MPG123_CBR"
    by (simp add: vbr128_def MPG123_VBR_def MPG123_CBR_def)
  have h3: "in_int (fi_bitrate (snd (MPG123_OK, vbr128)) * 1000)"
    by (simp add: vbr128_def c_ranges)
  have h4: "sint (delay (priv full_session) - 1) < 1"
    by (simp add: full_session_def)
  have h5: "(1073741823 :: 32 word) =
              (if mean_count (priv full_session) + 1 > UINT_MAX div 2 then UINT_MAX div 4
               else mean_count (priv full_session) + 1)"
    by (simp add: full_session_def UINT_MAX_half UINT_MAX_quarter)
  have h7: "(128000 :: rat) =
              f_div exact_ops
                (f_add exact_ops
                   (f_mul exact_ops (f_of_uint exact_ops (1073741823 - 1))
                      (mean_rate (priv full_session)))
                   (f_of_int exact_ops (fi_bitrate (snd (MPG123_OK, vbr128)) * 1000)))
                (f_of_uint exact_ops 1073741823)"
    by (simp add: full_session_def exact_ops_def vbr128_def)
  have h8: "f_half_up_int exact_ops 128000 = Some 128000"
    by code_simp
  show ?thesis
    by (rule update_info_vbr_refresh [OF h1 h2 h3 h4 h5 h7 h8])
qed

theorem mean_count_never_overflows_witness:
  "mean_count (priv full_session) = UINT_MAX div 2
   \<and> map_option (mean_count \<circ> priv) (update_all exact_ops full_session [(MPG123_OK, vbr128)])
       = Some (UINT_MAX div 4)
   \<and> UINT_MAX div 4 \<le> UINT_MAX div 2"
proof -
  have h1: "mean_count (priv full_session) \<le> UINT_MAX div 2"
    by (simp add: full_session_def UINT_MAX_half)
  have h2: "update_all exact_ops full_session [(MPG123_OK, vbr128)]
        = Some (full_session\<lparr>bitrate := 128000,
                  priv := (priv full_session)\<lparr>mean_count := 1073741823, mean_rate := 128000,
                            delay := 10\<rparr>\<rparr>)"
    by (simp add: full_session_step)
  have c1: "mean_count (priv full_session) = UINT_MAX div 2"
    by (simp add: full_session_def UINT_MAX_half)
  have c2: "map_option (mean_count \<circ> priv)
              (update_all exact_ops full_session [(MPG123_OK, vbr128)]) = Some (UINT_MAX div 4)"
    unfolding h2 by (simp add: UINT_MAX_quarter)
  have c3: "UINT_MAX div 4 \<le> UINT_MAX div 2"
    using mean_count_never_overflows [OF h1 h2] by (simp add: UINT_MAX_quarter)
  from c1 c2 c3 show ?thesis by blast
qed

subsection \<open>The delay between refreshes\<close>

text \<open>
  C2, as stated, fails: the delay counter of a new session is 0, not 10, and the first
  variable-bitrate frame refreshes the visible value (from 0 to 128000 here) with the
  decremented counter at -1, not at zero.
\<close>

theorem vbr_refresh_counterexample:
  "delay (priv fresh_session) = 0
   \<and> sint (delay (priv fresh_session) - 1) = - 1
   \<and> bitrate fresh_session = 0
   \<and> map_option bitrate (update_info exact_ops (MPG123_OK, vbr128) fresh_session)
       = Some 128000"
  by code_simp

text \<open>
  C2, amended: for every sequence of variable-bitrate frames the visible estimate is
  updated at most once every 10 frames. Each frame decrements the delay counter; the
  frame refreshes only when the decremented counter is below 1, and the counter is then
  set to 10, so that the next 9 frames (or fewer) change nothing but the counter;
  otherwise the frame changes nothing but the counter. (The counter of a new session is 0
  and a constant-bitrate frame sets it to 1, so the first variable-bitrate frame after
  either refreshes at once.)
\<close>

theorem vbr_refresh_at_most_every_ten:
  assumes "fst info = MPG123_OK" and "fi_vbr (snd info) \<noteq> MPG123_CBR"
    and "update_info F info da = Some da1"
    and "\<forall>i \<in> set infos. fst i = MPG123_OK \<and> fi_vbr (snd i) \<noteq> MPG123_CBR
              \<and> in_int (fi_bitrate (snd i) * 1000)"
    and "length infos \<le> 9"
  shows "(sint (delay (priv da) - 1) < 1 \<longrightarrow>
            delay (priv da1) = 10
            \<and> update_all F da1 infos =
                Some (da1\<lparr>priv := (priv da1)\<lparr>delay := 10 - of_nat (length infos)\<rparr>\<rparr>))
         \<and> (\<not> sint (delay (priv da) - 1) < 1 \<longrightarrow>
               da1 = da\<lparr>priv := (priv da)\<lparr>delay := delay (priv da) - 1\<rparr>\<rparr>)"
proof (intro conjI impI)
  assume r: "sint (delay (priv da) - 1) < 1"
  from assms(3) show ten: "delay (priv da1) = 10"
    using assms(1,2) r by (cases rule: update_info_cases) simp_all
  have "int (length infos) < sint (delay (priv da1))"
    using assms(5) by (simp add: ten)
  with assms(4) show "update_all F da1 infos =
                Some (da1\<lparr>priv := (priv da1)\<lparr>delay := 10 - of_nat (length infos)\<rparr>\<rparr>)"
    using vbr_countdown [of infos da1 F] by (simp add: ten)
next
  assume "\<not> sint (delay (priv da) - 1) < 1"
  with assms(3) show "da1 = da\<lparr>priv := (priv da)\<lparr>delay := delay (priv da) - 1\<rparr>\<rparr>"
    using assms(1,2) by (cases rule: update_info_cases) simp_all
qed

theorem vbr_refresh_at_most_every_ten_witness:
  "update_info exact_ops (MPG123_OK, vbr128) fresh_session
     = Some (mid_session\<lparr>priv := (priv mid_session)\<lparr>delay := 10\<rparr>\<rparr>)
   \<and> update_all exact_ops (mid_session\<lparr>priv := (priv mid_session)\<lparr>delay := 10\<rparr>\<rparr>)
        (replicate 9 (MPG123_OK, vbr64))
     = Some mid_session"
proof -
  let ?da1 = "mid_session\<lparr>priv := (priv mid_session)\<lparr>delay := 10\<rparr>\<rparr>"
  have h1: "fst (MPG123_OK, vbr128) = MPG123_OK" by simp
  have h2: "fi_vbr (snd (MPG123_OK, vbr128)) \<noteq> MPG123_CBR"
    by (simp add: vbr128_def MPG123_VBR_def MPG123_CBR_def)
  have h3: "update_info exact_ops (MPG123_OK, vbr128) fresh_session = Some ?da1"
    by code_simp
  have h4: "\<forall>i \<in> set (replicate 9 (MPG123_OK, vbr64)).
              fst i = MPG123_OK \<and> fi_vbr (snd i) \<noteq> MPG123_CBR
              \<and> in_int (fi_bitrate (snd i) * 1000)"
    by (simp add: vbr64_def MPG123_VBR_def MPG123_CBR_def c_ranges)
  have h5: "length (replicate 9 (MPG123_OK, vbr64)) \<le> 9" by simp
  have h6: "sint (delay (priv fresh_session) - 1) < 1"
    by (simp add: fresh_session_def init_context_def)
  have "update_all exact_ops ?da1 (replicate 9 (MPG123_OK, vbr64))
          = Some (?da1\<lparr>priv := (priv ?da1)\<lparr>delay := 10 - of_nat (length (replicate 9 (MPG123_OK, vbr64)))\<rparr>\<rparr>)"
    using vbr_refresh_at_most_every_ten [OF h1 h2 h3 h4 h5] h6 by blast
  moreover have "?da1\<lparr>priv := (priv ?da1)\<lparr>delay := 10 - of_nat (length (replicate 9 (MPG123_OK, vbr64)))\<rparr>\<rparr>
                   = mid_session"
    by (simp add: mid_session_def)
  ultimately show ?thesis using h3 by simp
qed

subsection \<open>The paths of decode_packet\<close>

lemmas mpg123_codes = MPG123_OK_def MPG123_ERR_def MPG123_DONE_def MPG123_NEW_FORMAT_def
  MPG123_NEED_MORE_def

lemma sint_of_nat_small:
  assumes "int q \<le> INT_MAX"
  shows "sint (word_of_nat q :: 32 word) = int q"
proof -
  have "int q < 2 ^ 31" "- (2 ^ 31) \<le> int q" using assms by (simp_all add: INT_MAX_def)
  then have "signed_take_bit 31 (int q) = int q"
    by (simp add: signed_take_bit_int_eq_self)
  moreover have "(word_of_nat q :: 32 word) = word_of_int (int q)" by simp
  ultimately show ?thesis by (simp only: sint_sbintrunc') simp
qed

lemma mpg123_format_to_af_None:
  "mpg123_format_to_af e = None \<longleftrightarrow>
     e \<notin> {MPG123_ENC_SIGNED_8, MPG123_ENC_SIGNED_16, MPG123_ENC_SIGNED_32, MPG123_ENC_FLOAT_32}"
  by (simp add: mpg123_format_to_af_def)

lemma set_format_frame:
  assumes "set_format gf da = Some (ret, da')"
  shows "bitrate da' = bitrate da \<and> pts da' = pts da \<and> pts_offset da' = pts_offset da
         \<and> mean_rate (priv da') = mean_rate (priv da)
         \<and> mean_count (priv da') = mean_count (priv da)
         \<and> delay (priv da') = delay (priv da)
         \<and> planes0 (decoded da') = planes0 (decoded da)
         \<and> samples (decoded da') = samples (decoded da)"
  using assms
  by (auto simp: set_format_def Let_def mp_audio_set_num_channels_def mp_audio_set_format_def
      split: if_splits option.splits bind_splits)

lemma set_format_result:
  assumes "set_format gf da = Some (ret, da')"
  shows "ret = MPG123_OK \<longleftrightarrow>
           gf_ret gf = MPG123_OK \<and> mpg123_format_to_af (gf_encoding gf) \<noteq> None"
  using assms
  by (auto simp: set_format_def Let_def mpg123_codes split: if_splits option.splits bind_splits)

lemma set_format_size:
  assumes "set_format gf da = Some (MPG123_OK, da')"
  shows "\<exists>af. mpg123_format_to_af (gf_encoding gf) = Some af
              \<and> sample_size (priv da') = gf_channels gf * af_fmt2bps af"
  using assms
  by (auto simp: set_format_def Let_def mpg123_codes as_int_def
      split: if_splits option.splits bind_splits)

lemma fed_estimator:
  "bitrate (fed env da) = bitrate da \<and> priv (fed env da) = priv da
   \<and> samples (decoded (fed env da)) = 0 \<and> planes0 (decoded (fed env da)) = 0
   \<and> pts_offset (fed env da) =
       (case demux_read_packet env of Some (Some t) \<Rightarrow> 0 | _ \<Rightarrow> pts_offset da)"
  by (simp add: fed_def mp_audio_set_null_data_def split: option.splits)

lemma decode_packet_eof:
  "demux_read_packet env = None \<Longrightarrow> decode_packet F env da = Some (AD_EOF, fed env da)"
  by (simp add: decode_packet_def fed_def)

lemma decode_packet_feed_fail:
  "demux_read_packet env \<noteq> None \<Longrightarrow> mpg123_feed env \<noteq> MPG123_OK \<Longrightarrow>
   decode_packet F env da = Some (AD_ERR, fed env da)"
  by (auto simp: decode_packet_def fed_def Let_def split: option.splits)

lemma decode_packet_need_more:
  "demux_read_packet env \<noteq> None \<Longrightarrow> mpg123_feed env = MPG123_OK \<Longrightarrow>
   mpg123_decode_frame env = MPG123_NEED_MORE \<Longrightarrow>
   decode_packet F env da = Some (0, fed env da)"
  by (auto simp: decode_packet_def fed_def Let_def split: option.splits)

lemma decode_packet_decode_fail:
  "demux_read_packet env \<noteq> None \<Longrightarrow> mpg123_feed env = MPG123_OK \<Longrightarrow>
   mpg123_decode_frame env \<notin> {MPG123_NEED_MORE, MPG123_OK, MPG123_DONE, MPG123_NEW_FORMAT} \<Longrightarrow>
   decode_packet F env da = Some (AD_ERR, fed env da)"
  by (auto simp: decode_packet_def fed_def Let_def split: option.splits)

lemma decode_packet_decoded:
  assumes "demux_read_packet env \<noteq> None" and "mpg123_feed env = MPG123_OK"
    and "mpg123_decode_frame env \<in> {MPG123_OK, MPG123_DONE, MPG123_NEW_FORMAT}"
  shows "decode_packet F env da =
           do {
             (ret, da1) \<leftarrow> set_format (mpg123_getformat env) (fed env da);
             if ret \<noteq> MPG123_OK then Some (AD_ERR, da1)
             else if sample_size (priv da1) < 1 then Some (AD_ERR, da1)
             else do {
               let got_samples =
                 sint (word_of_nat (bytes env div nat (sample_size (priv da1))) :: 32 word);
               off \<leftarrow> as_int (pts_offset da1 + got_samples);
               da' \<leftarrow> update_info F (mpg123_info env)
                       (da1\<lparr>decoded := (decoded da1)\<lparr>planes0 := audio env,
                                                     samples := got_samples\<rparr>,
                            pts_offset := off\<rparr>);
               Some (0, da')
             }
           }"
  using assms
  by (auto simp: decode_packet_def fed_def Let_def mpg123_codes split: option.splits)

text \<open>
  A return value of 0 that is not the answer to "need more" means that every check has
  passed and that the estimator has run.
\<close>

lemma decode_packet_success:
  assumes dp: "decode_packet F env da = Some (0, da')"
    and nm: "mpg123_decode_frame env \<noteq> MPG123_NEED_MORE"
  obtains da1 where
    "set_format (mpg123_getformat env) (fed env da) = Some (MPG123_OK, da1)"
    "1 \<le> sample_size (priv da1)"
    "in_int (pts_offset da1
        + sint (word_of_nat (bytes env div nat (sample_size (priv da1))) :: 32 word))"
    "update_info F (mpg123_info env)
       (da1\<lparr>decoded := (decoded da1)\<lparr>planes0 := audio env,
                  samples := sint (word_of_nat (bytes env div nat (sample_size (priv da1)))
                                     :: 32 word)\<rparr>,
             pts_offset := pts_offset da1
                + sint (word_of_nat (bytes env div nat (sample_size (priv da1))) :: 32 word)\<rparr>)
       = Some da'"
proof -
  have pk: "demux_read_packet env \<noteq> None"
    using dp decode_packet_eof [of env F da] by (auto simp: AD_EOF_def)
  have fd: "mpg123_feed env = MPG123_OK"
    using dp pk decode_packet_feed_fail [of env F da] by (auto simp: AD_ERR_def)
  have dc: "mpg123_decode_frame env \<in> {MPG123_OK, MPG123_DONE, MPG123_NEW_FORMAT}"
    using dp pk fd nm decode_packet_decode_fail [of env F da] by (auto simp: AD_ERR_def)
  show ?thesis
    using dp that unfolding decode_packet_decoded [OF pk fd dc]
    by (auto simp: AD_ERR_def as_int_def Let_def split: bind_splits if_splits)
qed

subsection \<open>The sample count\<close>

text \<open>
  C6: for every successful decode (the operation returns 0, and not as the answer to
  "need more"), the per-sample-frame byte size is the channel count times the bytes per
  sample of the encoding and is at least 1, the emitted sample count is the floor of the
  decoded byte length divided by that size (whether or not the division is exact; the
  quotient fits \<open>int\<close>), the sample offset advances by exactly that count, from 0 when
  the packet carries a timestamp, and the buffer of the decoder is attached.
\<close>

theorem decode_packet_sample_count:
  assumes "decode_packet F env da = Some (0, da')"
    and "mpg123_decode_frame env \<noteq> MPG123_NEED_MORE"
    and "int (bytes env) div sample_size (priv da') \<le> INT_MAX"
  shows "(\<exists>af. mpg123_format_to_af (gf_encoding (mpg123_getformat env)) = Some af
             \<and> sample_size (priv da') = gf_channels (mpg123_getformat env) * af_fmt2bps af)
         \<and> 1 \<le> sample_size (priv da')
         \<and> samples (decoded da') = int (bytes env) div sample_size (priv da')
         \<and> pts_offset da' =
             (case demux_read_packet env of Some (Some t) \<Rightarrow> 0 | _ \<Rightarrow> pts_offset da)
             + samples (decoded da')
         \<and> planes0 (decoded da') = audio env"
proof -
  from assms(1,2) obtain da1 where
    sf: "set_format (mpg123_getformat env) (fed env da) = Some (MPG123_OK, da1)"
    and sz: "1 \<le> sample_size (priv da1)"
    and ui: "update_info F (mpg123_info env)
       (da1\<lparr>decoded := (decoded da1)\<lparr>planes0 := audio env,
                  samples := sint (word_of_nat (bytes env div nat (sample_size (priv da1)))
                                     :: 32 word)\<rparr>,
             pts_offset := pts_offset da1
                + sint (word_of_nat (bytes env div nat (sample_size (priv da1))) :: 32 word)\<rparr>)
       = Some da'"
    by (rule decode_packet_success)
  let ?ss = "sample_size (priv da1)"
  from update_info_frame [OF ui] have
    fr: "decoded da' = (decoded da1)\<lparr>planes0 := audio env,
                  samples := sint (word_of_nat (bytes env div nat ?ss) :: 32 word)\<rparr>"
      "pts_offset da' = pts_offset da1 + sint (word_of_nat (bytes env div nat ?ss) :: 32 word)"
      "sample_size (priv da') = ?ss"
    by simp_all
  have q: "int (bytes env div nat ?ss) = int (bytes env) div ?ss"
    using sz by (simp add: zdiv_int)
  then have "int (bytes env div nat ?ss) \<le> INT_MAX" using assms(3) fr(3) by simp
  then have got: "sint (word_of_nat (bytes env div nat ?ss) :: 32 word) = int (bytes env) div ?ss"
    using q by (simp add: sint_of_nat_small)
  have off: "pts_offset da1 =
      (case demux_read_packet env of Some (Some t) \<Rightarrow> 0 | _ \<Rightarrow> pts_offset da)"
    using set_format_frame [OF sf] fed_estimator [of env da] by simp
  from set_format_size [OF sf] sz fr got off show ?thesis by simp
qed

theorem decode_packet_sample_count_witness:
  "map_option fst (decode_packet exact_ops example_env offset_session) = Some 0
   \<and> bytes example_env mod 4 \<noteq> 0
   \<and> map_option (samples \<circ> decoded \<circ> snd) (decode_packet exact_ops example_env offset_session)
       = Some 1152
   \<and> map_option (pts_offset \<circ> snd) (decode_packet exact_ops example_env offset_session)
       = Some 1252"
proof -
  let ?R = "\<lparr> decoded = \<lparr> nch = 2, rate = 44100, format = Some AF_FORMAT_S16,
                           planes0 = 4096, samples = 1152 \<rparr>,
              bitrate = 128000, pts = 0 :: rat, pts_offset = 1252,
              priv = \<lparr> sample_size = 4, mean_rate = 0 :: rat, mean_count = 0, delay = 1,
                       vbr = 0 \<rparr> \<rparr>"
  have h1: "decode_packet exact_ops example_env offset_session = Some (0, ?R)"
    by code_simp
  have h2: "mpg123_decode_frame example_env \<noteq> MPG123_NEED_MORE"
    by (simp add: example_env_def mpg123_codes)
  have h3: "int (bytes example_env) div sample_size (priv ?R) \<le> INT_MAX"
    by (simp add: example_env_def INT_MAX_def)
  have m: "bytes example_env mod 4 \<noteq> 0" by (simp add: example_env_def)
  have "samples (decoded ?R) = int (bytes example_env) div sample_size (priv ?R)
        \<and> pts_offset ?R =
             (case demux_read_packet example_env of Some (Some t) \<Rightarrow> 0
              | _ \<Rightarrow> pts_offset offset_session)
             + samples (decoded ?R)"
    using decode_packet_sample_count [OF h1 h2 h3] by blast
  then show ?thesis using m unfolding h1 by simp
qed

subsection \<open>Need more input\<close>

text \<open>
  C7: whenever the decode step reports "need more input" (a packet was there and the
  feed call succeeded, so that the decode step is reached), the operation returns 0, which
  is neither the error code nor the end-of-stream code, and the descriptor holds zero
  samples and no data.
\<close>

theorem need_more_is_not_an_error:
  assumes "demux_read_packet env \<noteq> None" and "mpg123_feed env = MPG123_OK"
    and "mpg123_decode_frame env = MPG123_NEED_MORE"
  shows "\<exists>da'. decode_packet F env da = Some (0, da') \<and> 0 \<noteq> AD_ERR \<and> 0 \<noteq> AD_EOF
            \<and> samples (decoded da') = 0 \<and> planes0 (decoded da') = 0"
  using decode_packet_need_more [OF assms, of F da] fed_estimator [of env da]
  by (simp add: AD_ERR_def AD_EOF_def)

theorem need_more_is_not_an_error_witness:
  "\<exists>da'. decode_packet exact_ops need_more_env offset_session = Some (0, da')
          \<and> samples (decoded da') = 0"
proof -
  have h1: "demux_read_packet need_more_env \<noteq> None"
    by (simp add: need_more_env_def example_env_def)
  have h2: "mpg123_feed need_more_env = MPG123_OK"
    by (simp add: need_more_env_def example_env_def)
  have h3: "mpg123_decode_frame need_more_env = MPG123_NEED_MORE"
    by (simp add: need_more_env_def)
  show ?thesis
    using need_more_is_not_an_error [OF h1 h2 h3, of exact_ops offset_session] by blast
qed

subsection \<open>Decode errors\<close>

text \<open>
  C8, as stated, fails: the operation also returns the error code when the feed call
  answers anything but ok, "need more" included, and when the format query fails after a
  decode step that answered ok, although the encoding is 16-bit signed and the sample
  size is 4.
\<close>

theorem decode_error_counterexample:
  "map_option fst (decode_packet exact_ops feed_need_more_env fresh_session) = Some AD_ERR
   \<and> mpg123_feed feed_need_more_env = MPG123_NEED_MORE
   \<and> map_option fst (decode_packet exact_ops getformat_err_env fresh_session) = Some AD_ERR
   \<and> mpg123_feed getformat_err_env = MPG123_OK
   \<and> mpg123_decode_frame example_env = MPG123_OK
   \<and> gf_encoding (mpg123_getformat example_env) = MPG123_ENC_SIGNED_16
   \<and> gf_channels (mpg123_getformat example_env) * af_fmt2bps AF_FORMAT_S16 = 4"
  by code_simp

text \<open>
  C8, amended: the operation returns the error code exactly when a packet is available
  and one of the following holds: the feed call returns an outcome other than ok; or the
  decode call returns an outcome other than ok, done, new-format or need-more; or the
  decode call returns ok, done or new-format and the format query returns an outcome
  other than ok, or the reported encoding is not one of signed-8, signed-16, signed-32,
  float-32, or the per-sample-frame byte size is less than 1.
\<close>

theorem decode_error_condition:
  assumes dp: "decode_packet F env da = Some (r, da')"
  shows "r = AD_ERR \<longleftrightarrow>
           demux_read_packet env \<noteq> None
           \<and> (mpg123_feed env \<noteq> MPG123_OK
              \<or> mpg123_decode_frame env \<noteq> MPG123_NEED_MORE
                 \<and> (mpg123_decode_frame env \<notin> {MPG123_OK, MPG123_DONE, MPG123_NEW_FORMAT}
                    \<or> gf_ret (mpg123_getformat env) \<noteq> MPG123_OK
                    \<or> gf_encoding (mpg123_getformat env) \<notin>
                         {MPG123_ENC_SIGNED_8, MPG123_ENC_SIGNED_16, MPG123_ENC_SIGNED_32,
                          MPG123_ENC_FLOAT_32}
                    \<or> (\<exists>af. mpg123_format_to_af (gf_encoding (mpg123_getformat env)) = Some af
                             \<and> gf_channels (mpg123_getformat env) * af_fmt2bps af < 1)))"
    (is "_ \<longleftrightarrow> ?cond")
proof (cases "demux_read_packet env = None")
  case True
  then show ?thesis
    using dp decode_packet_eof [of env F da] by (simp add: AD_ERR_def AD_EOF_def)
next
  case pk: False
  show ?thesis
  proof (cases "mpg123_feed env = MPG123_OK")
    case False
    then show ?thesis
      using dp pk decode_packet_feed_fail [of env F da] by simp
  next
    case fd: True
    show ?thesis
    proof (cases "mpg123_decode_frame env = MPG123_NEED_MORE")
      case True
      then show ?thesis
        using dp pk fd decode_packet_need_more [of env F da] by (simp add: AD_ERR_def)
    next
      case nm: False
      show ?thesis
      proof (cases "mpg123_decode_frame env \<in> {MPG123_OK, MPG123_DONE, MPG123_NEW_FORMAT}")
        case False
        then have "decode_packet F env da = Some (AD_ERR, fed env da)"
          using pk fd nm by (intro decode_packet_decode_fail) auto
        then show ?thesis using dp pk nm False by simp
      next
        case dc: True
        from dp obtain ret da1 where
          sf: "set_format (mpg123_getformat env) (fed env da) = Some (ret, da1)"
          unfolding decode_packet_decoded [OF pk fd dc] by (auto split: bind_splits)
        show ?thesis
        proof (cases "ret = MPG123_OK")
          case False
          then have "r = AD_ERR"
            using dp sf unfolding decode_packet_decoded [OF pk fd dc] by simp
          moreover have "gf_ret (mpg123_getformat env) \<noteq> MPG123_OK
            \<or> gf_encoding (mpg123_getformat env) \<notin>
                         {MPG123_ENC_SIGNED_8, MPG123_ENC_SIGNED_16, MPG123_ENC_SIGNED_32,
                          MPG123_ENC_FLOAT_32}"
            using set_format_result [OF sf] False mpg123_format_to_af_None by blast
          ultimately show ?thesis using pk nm by blast
        next
          case ok: True
          have g: "gf_ret (mpg123_getformat env) = MPG123_OK"
            and ne: "mpg123_format_to_af (gf_encoding (mpg123_getformat env)) \<noteq> None"
            using set_format_result [OF sf] ok by simp_all
          have e: "gf_encoding (mpg123_getformat env) \<in>
                         {MPG123_ENC_SIGNED_8, MPG123_ENC_SIGNED_16, MPG123_ENC_SIGNED_32,
                          MPG123_ENC_FLOAT_32}"
            using ne by (simp only: mpg123_format_to_af_None not_not)
          from sf ok obtain af where
            af: "mpg123_format_to_af (gf_encoding (mpg123_getformat env)) = Some af"
            and ss: "sample_size (priv da1) = gf_channels (mpg123_getformat env) * af_fmt2bps af"
            using set_format_size [of "mpg123_getformat env" "fed env da" da1] by blast
          have "r = AD_ERR \<longleftrightarrow> sample_size (priv da1) < 1"
          proof (cases "sample_size (priv da1) < 1")
            case True
            then show ?thesis
              using dp sf ok unfolding decode_packet_decoded [OF pk fd dc] by simp
          next
            case False
            then have "r = 0"
              using dp sf ok unfolding decode_packet_decoded [OF pk fd dc]
              by (simp add: Let_def split: bind_splits)
            then show ?thesis using False by (simp add: AD_ERR_def)
          qed
          then show ?thesis using pk fd nm dc g e af ss by simp
        qed
      qed
    qed
  qed
qed

theorem decode_error_condition_witness:
  "map_option fst (decode_packet exact_ops no_channels_env offset_session) = Some AD_ERR
   \<and> (\<exists>af. mpg123_format_to_af (gf_encoding (mpg123_getformat no_channels_env)) = Some af
            \<and> gf_channels (mpg123_getformat no_channels_env) * af_fmt2bps af < 1)"
proof -
  let ?R = "\<lparr> decoded = \<lparr> nch = 0, rate = 44100, format = Some AF_FORMAT_S16,
                           planes0 = 0, samples = 0 \<rparr>,
              bitrate = 128000, pts = 0 :: rat, pts_offset = 100,
              priv = \<lparr> sample_size = 0, mean_rate = 128000 :: rat, mean_count = 1, delay = 1,
                       vbr = 0 \<rparr> \<rparr>"
  have h1: "decode_packet exact_ops no_channels_env offset_session = Some (AD_ERR, ?R)"
    by code_simp
  have e: "gf_encoding (mpg123_getformat no_channels_env) = MPG123_ENC_SIGNED_16"
    "gf_ret (mpg123_getformat no_channels_env) = MPG123_OK"
    "mpg123_feed no_channels_env = MPG123_OK"
    "mpg123_decode_frame no_channels_env = MPG123_OK"
    by (simp_all add: no_channels_env_def example_env_def)
  have "\<exists>af. mpg123_format_to_af (gf_encoding (mpg123_getformat no_channels_env)) = Some af
            \<and> gf_channels (mpg123_getformat no_channels_env) * af_fmt2bps af < 1"
    using decode_error_condition [OF h1] by (simp add: e mpg123_codes)
  then show ?thesis unfolding h1 by simp
qed

subsection \<open>What a failed invocation leaves alone\<close>

text \<open>
  C10: an invocation that does not complete successfully (end of stream, "need more
  input", an error of the feed, decode or format step: a return value other than 0, or
  the answer to "need more") and a frame whose metadata query fails leave \<open>mean_rate\<close>,
  \<open>mean_count\<close>, the delay counter and the visible bitrate as they were. So the estimator
  changes only after a frame that was decoded and formatted successfully and whose
  metadata query succeeded.
\<close>

theorem failed_decode_keeps_estimator:
  assumes dp: "decode_packet F env da = Some (r, da')"
    and "r \<noteq> 0 \<or> mpg123_decode_frame env = MPG123_NEED_MORE
         \<or> fst (mpg123_info env) \<noteq> MPG123_OK"
  shows "mean_rate (priv da') = mean_rate (priv da)
         \<and> mean_count (priv da') = mean_count (priv da)
         \<and> delay (priv da') = delay (priv da)
         \<and> bitrate da' = bitrate da"
proof (cases "demux_read_packet env \<noteq> None \<and> mpg123_feed env = MPG123_OK
               \<and> mpg123_decode_frame env \<in> {MPG123_OK, MPG123_DONE, MPG123_NEW_FORMAT}")
  case False
  then have "decode_packet F env da = Some (AD_EOF, fed env da)
             \<or> decode_packet F env da = Some (AD_ERR, fed env da)
             \<or> decode_packet F env da = Some (0, fed env da)"
    using decode_packet_eof [of env F da] decode_packet_feed_fail [of env F da]
      decode_packet_need_more [of env F da] decode_packet_decode_fail [of env F da]
    by blast
  then have "da' = fed env da" using dp by auto
  then show ?thesis using fed_estimator [of env da] by simp
next
  case True
  then have pk: "demux_read_packet env \<noteq> None" and fd: "mpg123_feed env = MPG123_OK"
    and dc: "mpg123_decode_frame env \<in> {MPG123_OK, MPG123_DONE, MPG123_NEW_FORMAT}"
    by simp_all
  from dp obtain ret da1 where
    sf: "set_format (mpg123_getformat env) (fed env da) = Some (ret, da1)"
    unfolding decode_packet_decoded [OF pk fd dc] by (auto split: bind_splits)
  have keep1: "mean_rate (priv da1) = mean_rate (priv da)
         \<and> mean_count (priv da1) = mean_count (priv da)
         \<and> delay (priv da1) = delay (priv da)
         \<and> bitrate da1 = bitrate da"
    using set_format_frame [OF sf] fed_estimator [of env da] by simp
  show ?thesis
  proof (cases "r = 0")
    case False
    then have "da' = da1"
      using dp sf unfolding decode_packet_decoded [OF pk fd dc]
      by (auto simp: Let_def split: bind_splits if_splits)
    then show ?thesis using keep1 by simp
  next
    case True
    have nm: "mpg123_decode_frame env \<noteq> MPG123_NEED_MORE"
      using dc by (auto simp: mpg123_codes)
    with assms(2) True have bad: "fst (mpg123_info env) \<noteq> MPG123_OK" by simp
    from dp True nm obtain da2 st where
      "set_format (mpg123_getformat env) (fed env da) = Some (MPG123_OK, da2)"
      and ui: "update_info F (mpg123_info env) st = Some da'"
      and st: "priv st = priv da2" "bitrate st = bitrate da2"
      by (auto elim!: decode_packet_success)
    then have "da2 = da1" using sf by simp
    moreover have "da' = st" using ui bad by (simp add: update_info_not_ok)
    ultimately show ?thesis using keep1 st by simp
  qed
qed

theorem failed_decode_keeps_estimator_witness:
  "map_option fst (decode_packet exact_ops no_channels_env offset_session) = Some AD_ERR
   \<and> map_option (mean_rate \<circ> priv \<circ> snd) (decode_packet exact_ops no_channels_env offset_session)
       = Some (mean_rate (priv offset_session))
   \<and> map_option (mean_count \<circ> priv \<circ> snd)
        (decode_packet exact_ops no_channels_env offset_session)
       = Some (mean_count (priv offset_session))
   \<and> map_option (delay \<circ> priv \<circ> snd) (decode_packet exact_ops no_channels_env offset_session)
       = Some (delay (priv offset_session))
   \<and> map_option (bitrate \<circ> snd) (decode_packet exact_ops no_channels_env offset_session)
       = Some (bitrate offset_session)"
proof -
  let ?R = "\<lparr> decoded = \<lparr> nch = 0, rate = 44100, format = Some AF_FORMAT_S16,
                           planes0 = 0, samples = 0 \<rparr>,
              bitrate = 128000, pts = 0 :: rat, pts_offset = 100,
              priv = \<lparr> sample_size = 0, mean_rate = 128000 :: rat, mean_count = 1, delay = 1,
                       vbr = 0 \<rparr> \<rparr>"
  have h1: "decode_packet exact_ops no_channels_env offset_session = Some (AD_ERR, ?R)"
    by code_simp
  have h2: "AD_ERR \<noteq> 0 \<or> mpg123_decode_frame no_channels_env = MPG123_NEED_MORE
            \<or> fst (mpg123_info no_channels_env) \<noteq> MPG123_OK"
    by (simp add: AD_ERR_def)
  show ?thesis
    using failed_decode_keeps_estimator [OF h1 h2] unfolding h1 by simp
qed

end
